theory Spec2Isabelle
  imports Complex_Main
begin

section \<open>Data model\<close>

text \<open>
  The gesture controller (\<^verbatim>\<open>HandGestureController.tsx\<close>) and the viewer
  (\<^verbatim>\<open>Viewer.tsx\<close>) compute with JavaScript numbers. They are modelled as
  reals: arithmetic is exact, rounding is not modelled. The one place where the
  source relies on an IEEE value that is not a real (\<^verbatim>\<open>1 / 0 = Infinity\<close> in the
  zoom mapping) is written out as a case of its own.
\<close>

datatype mode = Normal | Dissection | Pathology

text \<open>A landmark, and every other \<^verbatim>\<open>{x, y}\<close> object of the source (the \<^verbatim>\<open>z\<close>
  coordinate of a landmark is never read).\<close>

record point =
  px :: real
  py :: real

text \<open>The interface \<^verbatim>\<open>GestureControls\<close>.\<close>

record GestureControls =
  rotationX :: real
  rotationY :: real
  zoom :: real
  mode :: mode

text \<open>The value \<^verbatim>\<open>{ name, mode }\<close> returned by \<^verbatim>\<open>detectGesture\<close>.\<close>

record gesture =
  name :: string
  gmode :: mode

text \<open>The argument of \<^verbatim>\<open>onResults\<close>; \<^verbatim>\<open>multiHandLandmarks\<close> may be undefined.\<close>

record Results =
  multiHandLandmarks :: "point list list option"

text \<open>
  The mutable state of one mounted \<^verbatim>\<open>HandGestureController\<close>: the three refs and the two
  pieces of React state that \<^verbatim>\<open>onResults\<close> writes. \<open>gestureModeState\<close> is the React
  state behind \<^verbatim>\<open>gestureMode\<close>, the value the next render will see.
\<close>

record controller =
  rotationRef :: point
  zoomRef :: real
  lastHandPosRef :: "point option"
  gestureModeState :: mode
  currentGesture :: string

definition initialController :: controller where
  "initialController =
     \<lparr>rotationRef = \<lparr>px = 0, py = 0\<rparr>, zoomRef = 1, lastHandPosRef = None,
      gestureModeState = Normal, currentGesture = ''Show your hand''\<rparr>"

section \<open>Gesture classification: \<^verbatim>\<open>detectGesture\<close>\<close>

text \<open>\<^verbatim>\<open>Math.hypot(a, b)\<close>, which is also \<^verbatim>\<open>Math.sqrt(Math.pow(a, 2) + Math.pow(b, 2))\<close>.\<close>

definition hypot :: "real \<Rightarrow> real \<Rightarrow> real" where
  "hypot a b = sqrt (a ^ 2 + b ^ 2)"

text \<open>
  The names returned by \<^verbatim>\<open>detectGesture\<close>. The leading emoji are given by their UTF-8
  bytes; the tests \<^verbatim>\<open>name.includes(...)\<close> only look for ASCII words.
\<close>

definition name_pinch :: string where
  "name_pinch = [CHR 0xF0, CHR 0x9F, CHR 0xA4, CHR 0x8F] @ '' Pinch - Zoom Active''"

definition name_open_hand :: string where
  "name_open_hand = [CHR 0xE2, CHR 0x9C, CHR 0x8B] @ '' Open Hand - Dissection Mode''"

definition name_fist :: string where
  "name_fist = [CHR 0xE2, CHR 0x9C, CHR 0x8A] @ '' Fist - Normal Mode''"

definition name_peace :: string where
  "name_peace =
     [CHR 0xE2, CHR 0x9C, CHR 0x8C, CHR 0xEF, CHR 0xB8, CHR 0x8F] @ '' Peace Sign - Pathology Mode''"

definition name_open_palm :: string where
  "name_open_palm =
     [CHR 0xF0, CHR 0x9F, CHR 0x96, CHR 0x90, CHR 0xEF, CHR 0xB8, CHR 0x8F] @ '' Open Palm - Rotate Model''"

definition name_pointing :: string where
  "name_pointing = [CHR 0xF0, CHR 0x9F, CHR 0x91, CHR 0x86] @ '' Pointing - Rotate Model''"

definition name_unclear :: string where
  "name_unclear = ''Show a clear gesture''"

text \<open>
  The local constants of \<^verbatim>\<open>detectGesture\<close>, each as a function of \<^verbatim>\<open>landmarks\<close>:
  tips are the landmarks 4, 8, 12, 16, 20, knuckles 2, 5, 9, 13, 17, the wrist is 0.
\<close>

definition thumbExtended :: "point list \<Rightarrow> bool" where
  "thumbExtended landmarks =
     (hypot (px (landmarks ! 4) - px (landmarks ! 0)) (py (landmarks ! 4) - py (landmarks ! 0)) >
      hypot (px (landmarks ! 2) - px (landmarks ! 0)) (py (landmarks ! 2) - py (landmarks ! 0)) + 0.05)"

definition indexExtended :: "point list \<Rightarrow> bool" where
  "indexExtended landmarks =
     (hypot (px (landmarks ! 8) - px (landmarks ! 0)) (py (landmarks ! 8) - py (landmarks ! 0)) >
      hypot (px (landmarks ! 5) - px (landmarks ! 0)) (py (landmarks ! 5) - py (landmarks ! 0)) + 0.05)"

definition middleExtended :: "point list \<Rightarrow> bool" where
  "middleExtended landmarks =
     (hypot (px (landmarks ! 12) - px (landmarks ! 0)) (py (landmarks ! 12) - py (landmarks ! 0)) >
      hypot (px (landmarks ! 9) - px (landmarks ! 0)) (py (landmarks ! 9) - py (landmarks ! 0)) + 0.05)"

definition ringExtended :: "point list \<Rightarrow> bool" where
  "ringExtended landmarks =
     (hypot (px (landmarks ! 16) - px (landmarks ! 0)) (py (landmarks ! 16) - py (landmarks ! 0)) >
      hypot (px (landmarks ! 13) - px (landmarks ! 0)) (py (landmarks ! 13) - py (landmarks ! 0)) + 0.05)"

definition pinkyExtended :: "point list \<Rightarrow> bool" where
  "pinkyExtended landmarks =
     (hypot (px (landmarks ! 20) - px (landmarks ! 0)) (py (landmarks ! 20) - py (landmarks ! 0)) >
      hypot (px (landmarks ! 17) - px (landmarks ! 0)) (py (landmarks ! 17) - py (landmarks ! 0)) + 0.05)"

definition extendedCount :: "point list \<Rightarrow> nat" where
  "extendedCount landmarks =
     length (filter (\<lambda>b. b)
       [indexExtended landmarks, middleExtended landmarks, ringExtended landmarks,
        pinkyExtended landmarks])"

definition pinchDistance :: "point list \<Rightarrow> real" where
  "pinchDistance landmarks =
     hypot (px (landmarks ! 4) - px (landmarks ! 8)) (py (landmarks ! 4) - py (landmarks ! 8))"

text \<open>
  \<^verbatim>\<open>detectGesture\<close> reads the free variable \<^verbatim>\<open>gestureMode\<close> of the enclosing render; it is
  the first argument here. Reading \<^verbatim>\<open>landmarks[k].x\<close> with \<^verbatim>\<open>k\<close> beyond the array throws a
  TypeError (index 20 is read), which is the result \<open>None\<close>.
\<close>

definition detectGesture :: "mode \<Rightarrow> point list \<Rightarrow> gesture option" where
  "detectGesture gestureMode landmarks =
     (if length landmarks < 21 then None
      else Some
       (if pinchDistance landmarks < 0.06 \<and> \<not> middleExtended landmarks \<and>
           \<not> ringExtended landmarks \<and> \<not> pinkyExtended landmarks
        then \<lparr>name = name_pinch, gmode = gestureMode\<rparr>
        else if extendedCount landmarks = 4 \<and> thumbExtended landmarks
        then \<lparr>name = name_open_hand, gmode = Dissection\<rparr>
        else if extendedCount landmarks = 0 \<and> \<not> thumbExtended landmarks
        then \<lparr>name = name_fist, gmode = Normal\<rparr>
        else if indexExtended landmarks \<and> middleExtended landmarks \<and> \<not> ringExtended landmarks \<and>
                \<not> pinkyExtended landmarks \<and> \<not> thumbExtended landmarks
        then \<lparr>name = name_peace, gmode = Pathology\<rparr>
        else if extendedCount landmarks \<ge> 3
        then \<lparr>name = name_open_palm, gmode = gestureMode\<rparr>
        else if indexExtended landmarks \<and> \<not> middleExtended landmarks \<and>
                \<not> ringExtended landmarks \<and> \<not> pinkyExtended landmarks
        then \<lparr>name = name_pointing, gmode = gestureMode\<rparr>
        else \<lparr>name = name_unclear, gmode = gestureMode\<rparr>))"

section \<open>Signal integration: \<^verbatim>\<open>onResults\<close>\<close>

text \<open>\<^verbatim>\<open>String.prototype.startsWith\<close> and \<^verbatim>\<open>String.prototype.includes\<close>.\<close>

fun startsWith :: "string \<Rightarrow> string \<Rightarrow> bool" where
  "startsWith s [] = True"
| "startsWith [] (p # ps) = False"
| "startsWith (c # cs) (p # ps) = (c = p \<and> startsWith cs ps)"

fun str_includes :: "string \<Rightarrow> string \<Rightarrow> bool" where
  "str_includes [] p = (p = [])"
| "str_includes (c # cs) p = (startsWith (c # cs) p \<or> str_includes cs p)"

text \<open>
  \<^verbatim>\<open>Math.max(0.3, Math.min(2.5, 1 / (distance * 15)))\<close>. A distance is a square root, so
  it is never negative; at distance 0 the quotient is \<^verbatim>\<open>Infinity\<close> in JavaScript (not 0
  as in HOL) and \<^verbatim>\<open>Math.min(2.5, Infinity)\<close> is 2.5.
\<close>

definition pinchZoom :: "real \<Rightarrow> real" where
  "pinchZoom distance =
     max 0.3 (if distance * 15 = 0 then 2.5 else min 2.5 (1 / (distance * 15)))"

text \<open>
  \<^verbatim>\<open>onResults\<close>, with the free variables of its closure as arguments: \<^verbatim>\<open>enabled\<close> and
  \<^verbatim>\<open>gestureMode\<close> are those of the render that created the callback, \<open>canvasCtx\<close> says
  that \<^verbatim>\<open>canvasRef.current\<close> is set and gave a 2d context. The result is the new state
  and the argument of the call of \<^verbatim>\<open>onGestureChange\<close>, if there was one. Drawing on
  the canvas is not modelled. An exception inside the \<^verbatim>\<open>try\<close> block is caught and
  logged: the only one modelled is the TypeError of \<^verbatim>\<open>detectGesture\<close>, thrown before
  anything was written.
\<close>

definition onResults ::
  "bool \<Rightarrow> mode \<Rightarrow> bool \<Rightarrow> controller \<Rightarrow> Results \<Rightarrow> controller \<times> GestureControls option" where
  "onResults enabled gestureMode canvasCtx st results =
     (if \<not> canvasCtx \<or> \<not> enabled then (st, None)
      else case multiHandLandmarks results of
        Some (landmarks # others) \<Rightarrow>
          (case detectGesture gestureMode landmarks of
             None \<Rightarrow> (st, None)
           | Some gesture \<Rightarrow>
               let st1 = st\<lparr>currentGesture := name gesture\<rparr>;
                   st2 = (if gmode gesture \<noteq> gestureMode
                          then st1\<lparr>gestureModeState := gmode gesture\<rparr> else st1);
                   palmCenter = landmarks ! 9;
                   st3 = (case lastHandPosRef st2 of
                            None \<Rightarrow> st2
                          | Some lastHandPos \<Rightarrow>
                              let deltaX = px palmCenter - px lastHandPos;
                                  deltaY = py palmCenter - py lastHandPos
                              in if str_includes (name gesture) ''Rotate'' \<or>
                                    str_includes (name gesture) ''Pointing''
                                 then st2\<lparr>rotationRef :=
                                            \<lparr>px = px (rotationRef st2) - deltaY * 10,
                                             py = py (rotationRef st2) + deltaX * 10\<rparr>\<rparr>
                                 else st2);
                   st4 = st3\<lparr>lastHandPosRef := Some \<lparr>px = px palmCenter, py = py palmCenter\<rparr>\<rparr>;
                   st5 = (if str_includes (name gesture) ''Pinch''
                          then st4\<lparr>zoomRef :=
                                    pinchZoom (sqrt ((px (landmarks ! 4) - px (landmarks ! 8)) ^ 2 +
                                                     (py (landmarks ! 4) - py (landmarks ! 8)) ^ 2))\<rparr>
                          else st4\<lparr>zoomRef := zoomRef st4 * 0.95 + 1.0 * 0.05\<rparr>)
               in (st5,
                   Some \<lparr>rotationX = px (rotationRef st5), rotationY = py (rotationRef st5),
                         zoom = zoomRef st5, mode = gmode gesture\<rparr>))
      | _ \<Rightarrow> (st\<lparr>currentGesture := ''Show your hand'', lastHandPosRef := None\<rparr>, None))"

text \<open>
  The callback is registered once, by \<^verbatim>\<open>hands.onResults(onResults)\<close> inside the effect
  whose dependency list is \<^verbatim>\<open>[enabled]\<close>: while \<^verbatim>\<open>enabled\<close> stays true the detector keeps
  calling the \<^verbatim>\<open>onResults\<close> of that one render, so \<^verbatim>\<open>enabled\<close> and \<^verbatim>\<open>gestureMode\<close> are
  the same for every frame of a session. A frame is the availability of the canvas
  and the detector's results; \<open>frames\<close> returns the final state and what each frame sent
  to \<^verbatim>\<open>onGestureChange\<close>.
\<close>

fun frames ::
  "bool \<Rightarrow> mode \<Rightarrow> controller \<Rightarrow> (bool \<times> Results) list \<Rightarrow> controller \<times> GestureControls option list" where
  "frames enabled gestureMode st [] = (st, [])"
| "frames enabled gestureMode st ((canvasCtx, results) # rest) =
     (let (st', out) = onResults enabled gestureMode canvasCtx st results;
          (st'', outs) = frames enabled gestureMode st' rest
      in (st'', out # outs))"

section \<open>The classifier as the specification words it\<close>

text \<open>
  The closed set of classifications, the name \<^verbatim>\<open>detectGesture\<close> gives each one, and the
  mode each one carries (\<open>None\<close>: the mode is left as it was, "sticky").
\<close>

datatype classification =
  Pinch | OpenHandDissection | FistNormal | PeaceSignPathology | OpenPalmRotate |
  PointingRotate | Unrecognized

fun className :: "classification \<Rightarrow> string" where
  "className Pinch = name_pinch"
| "className OpenHandDissection = name_open_hand"
| "className FistNormal = name_fist"
| "className PeaceSignPathology = name_peace"
| "className OpenPalmRotate = name_open_palm"
| "className PointingRotate = name_pointing"
| "className Unrecognized = name_unclear"

fun classMode :: "classification \<Rightarrow> mode option" where
  "classMode OpenHandDissection = Some Dissection"
| "classMode FistNormal = Some Normal"
| "classMode PeaceSignPathology = Some Pathology"
| "classMode c = None"

text \<open>Euclidean distance of two landmarks.\<close>

definition distance :: "point \<Rightarrow> point \<Rightarrow> real" where
  "distance p q = sqrt ((px p - px q) ^ 2 + (py p - py q) ^ 2)"

text \<open>A finger is extended iff its wrist-to-tip distance exceeds its wrist-to-knuckle
  distance by the margin 0.05.\<close>

definition extended_spec :: "point list \<Rightarrow> nat \<Rightarrow> nat \<Rightarrow> bool" where
  "extended_spec lms tip knuckle =
     (distance (lms ! 0) (lms ! tip) > distance (lms ! 0) (lms ! knuckle) + 0.05)"

definition thumb_spec :: "point list \<Rightarrow> bool" where
  "thumb_spec lms = extended_spec lms 4 2"

definition index_spec :: "point list \<Rightarrow> bool" where
  "index_spec lms = extended_spec lms 8 5"

definition middle_spec :: "point list \<Rightarrow> bool" where
  "middle_spec lms = extended_spec lms 12 9"

definition ring_spec :: "point list \<Rightarrow> bool" where
  "ring_spec lms = extended_spec lms 16 13"

definition pinky_spec :: "point list \<Rightarrow> bool" where
  "pinky_spec lms = extended_spec lms 20 17"

text \<open>The number of extended fingers among index, middle, ring and pinky.\<close>

definition extendedCount_spec :: "point list \<Rightarrow> nat" where
  "extendedCount_spec lms =
     (if index_spec lms then 1 else 0) + (if middle_spec lms then 1 else 0) +
     (if ring_spec lms then 1 else 0) + (if pinky_spec lms then 1 else 0)"

text \<open>The priority chain, rules (1) to (6); rule (7) is the default of \<open>first_match\<close>.\<close>

definition priority_chain :: "((point list \<Rightarrow> bool) \<times> classification) list" where
  "priority_chain =
     [(\<lambda>l. distance (l ! 4) (l ! 8) < 0.06 \<and> \<not> middle_spec l \<and> \<not> ring_spec l \<and> \<not> pinky_spec l,
       Pinch),
      (\<lambda>l. extendedCount_spec l = 4 \<and> thumb_spec l, OpenHandDissection),
      (\<lambda>l. extendedCount_spec l = 0 \<and> \<not> thumb_spec l, FistNormal),
      (\<lambda>l. index_spec l \<and> middle_spec l \<and> \<not> ring_spec l \<and> \<not> pinky_spec l \<and> \<not> thumb_spec l,
       PeaceSignPathology),
      (\<lambda>l. extendedCount_spec l \<ge> 3, OpenPalmRotate),
      (\<lambda>l. index_spec l \<and> \<not> middle_spec l \<and> \<not> ring_spec l \<and> \<not> pinky_spec l, PointingRotate)]"

fun first_match :: "(('a \<Rightarrow> bool) \<times> 'b) list \<Rightarrow> 'b \<Rightarrow> 'a \<Rightarrow> 'b" where
  "first_match [] d x = d"
| "first_match ((guard, r) # rules) d x = (if guard x then r else first_match rules d x)"

definition classOf :: "point list \<Rightarrow> classification" where
  "classOf lms = first_match priority_chain Unrecognized lms"

definition classify :: "point list \<Rightarrow> mode \<Rightarrow> classification \<times> mode" where
  "classify lms stickyMode =
     (classOf lms, case classMode (classOf lms) of None \<Rightarrow> stickyMode | Some m \<Rightarrow> m)"

text \<open>A frame, canvas available, in which a hand of at least 21 landmarks is seen and
  classified as something other than Pinch.\<close>

definition nonPinchFrame :: "bool \<times> Results \<Rightarrow> bool" where
  "nonPinchFrame f =
     (case multiHandLandmarks (snd f) of
        Some (lms # others) \<Rightarrow> fst f \<and> 21 \<le> length lms \<and> classOf lms \<noteq> Pinch
      | _ \<Rightarrow> False)"

section \<open>The render target: \<^verbatim>\<open>Viewer\<close>\<close>

record vec3 =
  vx :: real
  vy :: real
  vz :: real

text \<open>The loaded model: the two transforms the viewer writes.\<close>

record mesh =
  rotation :: vec3
  scale :: vec3

record MouseEvent =
  clientX :: real
  clientY :: real

text \<open>The refs of the viewer and the two local variables of its effect that the mouse
  handlers and the render loop share.\<close>

record viewer =
  meshRef :: "mesh option"
  gestureControlsRef :: "GestureControls option"
  gestureEnabledRef :: bool
  isDragging :: bool
  previousMousePosition :: point

text \<open>The base scale given to the model when it is loaded: \<^verbatim>\<open>modelScale\<close>.\<close>

definition modelScale :: "string option \<Rightarrow> vec3" where
  "modelScale selectedOrgan =
     (if selectedOrgan = Some ''brain'' then \<lparr>vx = 0.1, vy = 0.1, vz = 0.1\<rparr>
      else \<lparr>vx = 1000, vy = 1000, vz = 1000\<rparr>)"

definition onMouseDown :: "MouseEvent \<Rightarrow> viewer \<Rightarrow> viewer" where
  "onMouseDown e v =
     (if gestureEnabledRef v then v
      else v\<lparr>isDragging := True, previousMousePosition := \<lparr>px = clientX e, py = clientY e\<rparr>\<rparr>)"

definition onMouseMove :: "MouseEvent \<Rightarrow> viewer \<Rightarrow> viewer" where
  "onMouseMove e v =
     (if gestureEnabledRef v \<or> \<not> isDragging v then v
      else case meshRef v of
        None \<Rightarrow> v
      | Some m \<Rightarrow>
          let deltaX = clientX e - px (previousMousePosition v);
              deltaY = clientY e - py (previousMousePosition v)
          in v\<lparr>meshRef := Some (m\<lparr>rotation := (rotation m)
                                 \<lparr>vy := vy (rotation m) + deltaX * 0.01,
                                  vx := vx (rotation m) + deltaY * 0.01\<rparr>\<rparr>),
               previousMousePosition := \<lparr>px = clientX e, py = clientY e\<rparr>\<rparr>)"

definition onMouseUp :: "viewer \<Rightarrow> viewer" where
  "onMouseUp v = v\<lparr>isDragging := False\<rparr>"

text \<open>One tick of the render loop; \<^verbatim>\<open>selectedOrgan\<close> is the prop (possibly undefined).
  Drawing the scene is not modelled.\<close>

definition animate :: "string option \<Rightarrow> viewer \<Rightarrow> viewer" where
  "animate selectedOrgan v =
     (let autoRotate = \<not> gestureEnabledRef v \<and> \<not> isDragging v
      in case meshRef v of
        None \<Rightarrow> v
      | Some m \<Rightarrow>
          (case (if gestureEnabledRef v then gestureControlsRef v else None) of
             Some controls \<Rightarrow>
               let scale = zoom controls;
                   r = (rotation m)\<lparr>vx := rotationX controls, vy := rotationY controls\<rparr>
               in if selectedOrgan = Some ''brain''
                  then v\<lparr>meshRef := Some (m\<lparr>rotation := r,
                            scale := \<lparr>vx = 0.1 * scale, vy = 0.1 * scale, vz = 0.1 * scale\<rparr>\<rparr>)\<rparr>
                  else v\<lparr>meshRef := Some (m\<lparr>rotation := r,
                            scale := \<lparr>vx = 1000 * scale, vy = 1000 * scale, vz = 1000 * scale\<rparr>\<rparr>)\<rparr>
           | None \<Rightarrow>
               if autoRotate
               then v\<lparr>meshRef := Some (m\<lparr>rotation := (rotation m)\<lparr>vy := vy (rotation m) + 0.005\<rparr>\<rparr>)\<rparr>
               else v))"

section \<open>Concrete hands\<close>

text \<open>A hand from its wrist and the knuckle and tip of each finger; the ten landmarks
  that \<^verbatim>\<open>detectGesture\<close> never reads repeat their neighbours.\<close>

definition mkHand ::
  "point \<Rightarrow> point \<Rightarrow> point \<Rightarrow> point \<Rightarrow> point \<Rightarrow> point \<Rightarrow> point \<Rightarrow> point \<Rightarrow> point \<Rightarrow> point \<Rightarrow> point
     \<Rightarrow> point list" where
  "mkHand wrist thumbKnuckle thumbTip indexKnuckle indexTip middleKnuckle middleTip
          ringKnuckle ringTip pinkyKnuckle pinkyTip =
     [wrist, thumbKnuckle, thumbKnuckle, thumbTip, thumbTip,
      indexKnuckle, indexKnuckle, indexTip, indexTip,
      middleKnuckle, middleKnuckle, middleTip, middleTip,
      ringKnuckle, ringKnuckle, ringTip, ringTip,
      pinkyKnuckle, pinkyKnuckle, pinkyTip, pinkyTip]"

abbreviation pt :: "real \<Rightarrow> real \<Rightarrow> point" where
  "pt a b \<equiv> \<lparr>px = a, py = b\<rparr>"

text \<open>Thumb tip (0.50, 0.50), index tip (0.52, 0.50), the other fingers curled.\<close>

definition pinchHand :: "point list" where
  "pinchHand =
     mkHand (pt 0.5 0.9) (pt 0.5 0.7) (pt 0.50 0.50) (pt 0.52 0.6) (pt 0.52 0.50)
       (pt 0.5 0.6) (pt 0.5 0.7) (pt 0.5 0.6) (pt 0.5 0.7) (pt 0.5 0.65) (pt 0.5 0.75)"

text \<open>All five fingers stretched.\<close>

definition openHand :: "point list" where
  "openHand =
     mkHand (pt 0.5 0.9) (pt 0.4 0.9) (pt 0.2 0.9) (pt 0.5 0.6) (pt 0.5 0.3)
       (pt 0.5 0.6) (pt 0.5 0.25) (pt 0.5 0.6) (pt 0.5 0.3) (pt 0.5 0.65) (pt 0.5 0.4)"

text \<open>A fist with the thumb tip 0.1 away from the index tip.\<close>

definition fistHand :: "point list" where
  "fistHand =
     mkHand (pt 0.5 0.9) (pt 0.5 0.8) (pt 0.5 0.8) (pt 0.5 0.6) (pt 0.5 0.7)
       (pt 0.5 0.6) (pt 0.5 0.7) (pt 0.5 0.6) (pt 0.5 0.7) (pt 0.5 0.65) (pt 0.5 0.75)"

text \<open>A fist with the thumb tip resting 0.04 from the index tip.\<close>

definition thumbOnFistHand :: "point list" where
  "thumbOnFistHand =
     mkHand (pt 0.5 0.9) (pt 0.5 0.8) (pt 0.5 0.76) (pt 0.5 0.6) (pt 0.5 0.72)
       (pt 0.5 0.6) (pt 0.5 0.7) (pt 0.5 0.6) (pt 0.5 0.7) (pt 0.5 0.65) (pt 0.5 0.75)"

text \<open>Index, middle and ring stretched, pinky and thumb curled.\<close>

definition palmHand :: "point list" where
  "palmHand =
     mkHand (pt 0.5 0.9) (pt 0.5 0.8) (pt 0.5 0.8) (pt 0.5 0.6) (pt 0.5 0.3)
       (pt 0.5 0.6) (pt 0.5 0.25) (pt 0.5 0.6) (pt 0.5 0.3) (pt 0.5 0.65) (pt 0.5 0.75)"

text \<open>A viewer in gesture mode, in the middle of a drag, showing the brain.\<close>

definition gestureViewer :: viewer where
  "gestureViewer =
     \<lparr>meshRef = Some \<lparr>rotation = \<lparr>vx = 0.3, vy = 0.4, vz = 0\<rparr>,
                       scale = \<lparr>vx = 0.1, vy = 0.1, vz = 0.1\<rparr>\<rparr>,
      gestureControlsRef = Some \<lparr>rotationX = 1, rotationY = 2, zoom = 2.5, mode = Normal\<rparr>,
      gestureEnabledRef = True, isDragging = True, previousMousePosition = pt 10 10\<rparr>"

definition noHand :: Results where
  "noHand = \<lparr>multiHandLandmarks = None\<rparr>"

definition seen :: "point list \<Rightarrow> Results" where
  "seen lms = \<lparr>multiHandLandmarks = Some [lms]\<rparr>"

section \<open>Basic facts\<close>

lemma hypot_nonneg: "0 \<le> hypot a b"
  by (simp add: hypot_def)

lemma hypot_0_left: "hypot 0 b = \<bar>b\<bar>"
  by (simp add: hypot_def)

lemma hypot_0_right: "hypot a 0 = \<bar>a\<bar>"
  by (simp add: hypot_def)

lemma hypot_less_iff: "hypot a b < c \<longleftrightarrow> 0 < c \<and> a ^ 2 + b ^ 2 < c ^ 2"
proof (cases "0 < c")
  case True
  then have "sqrt (a ^ 2 + b ^ 2) < c \<longleftrightarrow> a ^ 2 + b ^ 2 < c ^ 2"
    by (metis real_sqrt_less_iff real_sqrt_abs abs_of_pos)
  with True show ?thesis by (simp add: hypot_def)
next
  case False
  with hypot_nonneg [of a b] show ?thesis by linarith
qed

lemma distance_hypot: "distance p q = hypot (px q - px p) (py q - py p)"
  by (simp add: distance_def hypot_def power2_commute)

lemma distance_hypot': "distance p q = hypot (px p - px q) (py p - py q)"
  by (simp add: distance_def hypot_def)

lemma thumb_spec_eq: "thumb_spec l = thumbExtended l"
  by (simp add: thumb_spec_def extended_spec_def thumbExtended_def distance_hypot)

lemma index_spec_eq: "index_spec l = indexExtended l"
  by (simp add: index_spec_def extended_spec_def indexExtended_def distance_hypot)

lemma middle_spec_eq: "middle_spec l = middleExtended l"
  by (simp add: middle_spec_def extended_spec_def middleExtended_def distance_hypot)

lemma ring_spec_eq: "ring_spec l = ringExtended l"
  by (simp add: ring_spec_def extended_spec_def ringExtended_def distance_hypot)

lemma pinky_spec_eq: "pinky_spec l = pinkyExtended l"
  by (simp add: pinky_spec_def extended_spec_def pinkyExtended_def distance_hypot)

lemma extendedCount_spec_eq: "extendedCount_spec l = extendedCount l"
  by (simp add: extendedCount_spec_def extendedCount_def index_spec_eq middle_spec_eq
      ring_spec_eq pinky_spec_eq)

lemma pinch_distance_eq: "distance (l ! 4) (l ! 8) = pinchDistance l"
  by (simp add: pinchDistance_def distance_hypot')

lemma classOf_eq:
  "classOf l =
     (if pinchDistance l < 0.06 \<and> \<not> middleExtended l \<and> \<not> ringExtended l \<and> \<not> pinkyExtended l
      then Pinch
      else if extendedCount l = 4 \<and> thumbExtended l then OpenHandDissection
      else if extendedCount l = 0 \<and> \<not> thumbExtended l then FistNormal
      else if indexExtended l \<and> middleExtended l \<and> \<not> ringExtended l \<and> \<not> pinkyExtended l \<and>
              \<not> thumbExtended l then PeaceSignPathology
      else if extendedCount l \<ge> 3 then OpenPalmRotate
      else if indexExtended l \<and> \<not> middleExtended l \<and> \<not> ringExtended l \<and> \<not> pinkyExtended l
      then PointingRotate
      else Unrecognized)"
  by (simp add: classOf_def priority_chain_def thumb_spec_eq index_spec_eq middle_spec_eq
      ring_spec_eq pinky_spec_eq extendedCount_spec_eq pinch_distance_eq)

lemma detectGesture_classify:
  "21 \<le> length l \<Longrightarrow>
   detectGesture g l = Some \<lparr>name = className (classOf l), gmode = snd (classify l g)\<rparr>"
  by (simp add: detectGesture_def classify_def classOf_eq)


lemma includes_pinch:
  "str_includes name_pinch ''Pinch''" "\<not> str_includes name_pinch ''Rotate''" "\<not> str_includes name_pinch ''Pointing''"
  by (simp_all add: name_pinch_def)

lemma includes_open_hand:
  "\<not> str_includes name_open_hand ''Pinch''" "\<not> str_includes name_open_hand ''Rotate''" "\<not> str_includes name_open_hand ''Pointing''"
  by (simp_all add: name_open_hand_def)

lemma includes_fist:
  "\<not> str_includes name_fist ''Pinch''" "\<not> str_includes name_fist ''Rotate''" "\<not> str_includes name_fist ''Pointing''"
  by (simp_all add: name_fist_def)

lemma includes_peace:
  "\<not> str_includes name_peace ''Pinch''" "\<not> str_includes name_peace ''Rotate''" "\<not> str_includes name_peace ''Pointing''"
  by (simp_all add: name_peace_def)

lemma includes_open_palm:
  "\<not> str_includes name_open_palm ''Pinch''" "str_includes name_open_palm ''Rotate''"
  by (simp_all add: name_open_palm_def)

lemma includes_pointing:
  "\<not> str_includes name_pointing ''Pinch''" "str_includes name_pointing ''Rotate''"
  by (simp_all add: name_pointing_def)

lemma includes_unclear:
  "\<not> str_includes name_unclear ''Pinch''" "\<not> str_includes name_unclear ''Rotate''" "\<not> str_includes name_unclear ''Pointing''"
  by (simp_all add: name_unclear_def)

lemma className_Pinch: "str_includes (className c) ''Pinch'' \<longleftrightarrow> c = Pinch"
  by (cases c) (simp_all add: includes_pinch includes_open_hand includes_fist includes_peace
      includes_open_palm includes_pointing includes_unclear)

lemma className_Rotate:
  "str_includes (className c) ''Rotate'' \<longleftrightarrow> c = OpenPalmRotate \<or> c = PointingRotate"
  by (cases c) (simp_all add: includes_pinch includes_open_hand includes_fist includes_peace
      includes_open_palm includes_pointing includes_unclear)

lemma className_Pointing: "str_includes (className c) ''Pointing'' \<longleftrightarrow> c = PointingRotate"
  by (cases c) (simp_all add: includes_pinch includes_open_hand includes_fist includes_peace
      includes_open_palm includes_pointing includes_unclear name_open_palm_def name_pointing_def)

lemma className_inj: "className c = className d \<longleftrightarrow> c = d"
  by (cases c; cases d)
     (simp_all add: name_pinch_def name_open_hand_def name_fist_def name_peace_def
        name_open_palm_def name_pointing_def name_unclear_def)

lemma onResults_hand:
  assumes "multiHandLandmarks r = Some (l # others)" and "21 \<le> length l"
  shows "onResults True g True st r =
    (\<lparr>rotationRef =
         (case lastHandPosRef st of
            None \<Rightarrow> rotationRef st
          | Some prev \<Rightarrow>
              if classOf l = OpenPalmRotate \<or> classOf l = PointingRotate
              then \<lparr>px = px (rotationRef st) - (py (l ! 9) - py prev) * 10,
                    py = py (rotationRef st) + (px (l ! 9) - px prev) * 10\<rparr>
              else rotationRef st),
       zoomRef = (if classOf l = Pinch then pinchZoom (pinchDistance l)
                  else zoomRef st * 0.95 + 0.05),
       lastHandPosRef = Some \<lparr>px = px (l ! 9), py = py (l ! 9)\<rparr>,
       gestureModeState = (if snd (classify l g) \<noteq> g then snd (classify l g)
                           else gestureModeState st),
       currentGesture = className (classOf l)\<rparr>,
     Some \<lparr>rotationX =
         px (case lastHandPosRef st of
            None \<Rightarrow> rotationRef st
          | Some prev \<Rightarrow>
              if classOf l = OpenPalmRotate \<or> classOf l = PointingRotate
              then \<lparr>px = px (rotationRef st) - (py (l ! 9) - py prev) * 10,
                    py = py (rotationRef st) + (px (l ! 9) - px prev) * 10\<rparr>
              else rotationRef st),
        rotationY =
         py (case lastHandPosRef st of
            None \<Rightarrow> rotationRef st
          | Some prev \<Rightarrow>
              if classOf l = OpenPalmRotate \<or> classOf l = PointingRotate
              then \<lparr>px = px (rotationRef st) - (py (l ! 9) - py prev) * 10,
                    py = py (rotationRef st) + (px (l ! 9) - px prev) * 10\<rparr>
              else rotationRef st),
        zoom = (if classOf l = Pinch then pinchZoom (pinchDistance l)
                  else zoomRef st * 0.95 + 0.05),
        mode = snd (classify l g)\<rparr>)"
  using assms
  by (cases "lastHandPosRef st")
     (simp_all add: onResults_def detectGesture_classify Let_def className_Pinch className_Rotate
        className_Pointing pinchDistance_def hypot_def includes_pinch includes_open_hand
        includes_fist includes_peace includes_open_palm includes_pointing includes_unclear)

lemma onResults_no_hand:
  assumes "multiHandLandmarks r = None \<or> multiHandLandmarks r = Some []"
  shows "onResults True g True st r =
           (st\<lparr>currentGesture := ''Show your hand'', lastHandPosRef := None\<rparr>, None)"
  using assms by (auto simp: onResults_def)

lemma onResults_off:
  "\<not> canvasCtx \<or> \<not> enabled \<Longrightarrow> onResults enabled g canvasCtx st r = (st, None)"
  by (auto simp: onResults_def)

lemma pinchZoom_range: "0.3 \<le> pinchZoom d \<and> pinchZoom d \<le> 2.5"
  by (auto simp: pinchZoom_def max_def min_def)

lemma zoom_step_range:
  "0.3 \<le> zoomRef st \<and> zoomRef st \<le> 2.5 \<Longrightarrow>
   0.3 \<le> zoomRef (fst (onResults enabled g canvasCtx st r)) \<and>
   zoomRef (fst (onResults enabled g canvasCtx st r)) \<le> 2.5"
  using pinchZoom_range
  by (auto simp: onResults_def Let_def split: option.splits list.splits)


subsection \<open>The concrete hands\<close>

lemmas feature_defs =
  thumbExtended_def indexExtended_def middleExtended_def ringExtended_def pinkyExtended_def
  extendedCount_def pinchDistance_def mkHand_def hypot_0_left hypot_0_right hypot_less_iff

lemma pinchHand_facts:
  "length pinchHand = 21" "classOf pinchHand = Pinch" "pinchDistance pinchHand = 0.02"
  by (simp_all add: classOf_eq pinchHand_def feature_defs)

lemma openHand_facts:
  "length openHand = 21" "classOf openHand = OpenHandDissection"
  by (simp_all add: classOf_eq openHand_def feature_defs)

lemma fistHand_facts:
  "length fistHand = 21" "classOf fistHand = FistNormal" "extendedCount fistHand = 0"
  "\<not> thumbExtended fistHand" "pinchDistance fistHand = 0.1"
  by (simp_all add: classOf_eq fistHand_def feature_defs)

lemma thumbOnFistHand_facts:
  "length thumbOnFistHand = 21" "classOf thumbOnFistHand = Pinch"
  "extendedCount thumbOnFistHand = 0" "\<not> thumbExtended thumbOnFistHand"
  by (simp_all add: classOf_eq thumbOnFistHand_def feature_defs)

lemma palmHand_facts:
  "length palmHand = 21" "classOf palmHand = OpenPalmRotate" "palmHand ! 9 = pt 0.5 0.6"
  by (simp_all add: classOf_eq palmHand_def feature_defs)

subsection \<open>Sequences of frames\<close>

lemma frames_fst_Cons:
  "fst (frames e g st (f # rest)) = fst (frames e g (fst (onResults e g (fst f) st (snd f))) rest)"
  by (cases f) (simp add: case_prod_beta)

lemma frames_snd_Cons:
  "snd (frames e g st (f # rest)) =
     snd (onResults e g (fst f) st (snd f)) #
     snd (frames e g (fst (onResults e g (fst f) st (snd f))) rest)"
  by (cases f) (simp add: case_prod_beta)

lemma frames_fst_snoc:
  "fst (frames e g st (fs @ [f])) = fst (onResults e g (fst f) (fst (frames e g st fs)) (snd f))"
  by (induction fs arbitrary: st) (simp_all add: frames_fst_Cons)

lemma frames_zoom_range:
  "0.3 \<le> zoomRef st \<and> zoomRef st \<le> 2.5 \<Longrightarrow>
   0.3 \<le> zoomRef (fst (frames e g st fs)) \<and> zoomRef (fst (frames e g st fs)) \<le> 2.5"
proof (induction fs arbitrary: st)
  case Nil
  then show ?case by simp
next
  case (Cons f fs)
  from Cons.prems have "0.3 \<le> zoomRef (fst (onResults e g (fst f) st (snd f))) \<and>
      zoomRef (fst (onResults e g (fst f) st (snd f))) \<le> 2.5"
    by (rule zoom_step_range)
  then show ?case
    unfolding frames_fst_Cons by (rule Cons.IH)
qed

lemma nonPinch_step:
  assumes "nonPinchFrame f"
  shows "zoomRef (fst (onResults True g True st (snd f))) = zoomRef st * 0.95 + 0.05" and "fst f"
proof -
  from assms obtain l others where r: "multiHandLandmarks (snd f) = Some (l # others)"
    and l: "21 \<le> length l" and c: "classOf l \<noteq> Pinch" and f: "fst f"
    by (auto simp: nonPinchFrame_def split: option.splits list.splits)
  show "zoomRef (fst (onResults True g True st (snd f))) = zoomRef st * 0.95 + 0.05"
    by (simp add: onResults_hand [OF r l] c)
  show "fst f" by (rule f)
qed

text \<open>After \<open>n\<close> such frames the distance of the zoom from 1 has shrunk by \<open>0.95 ^ n\<close>.\<close>

lemma frames_decay:
  "\<forall>f \<in> set fs. nonPinchFrame f \<Longrightarrow>
   zoomRef (fst (frames True g st fs)) = 1 + (19 / 20) ^ length fs * (zoomRef st - 1)"
proof (induction fs arbitrary: st)
  case Nil
  then show ?case by simp
next
  case (Cons f fs)
  then have f: "nonPinchFrame f" and fs: "\<forall>f \<in> set fs. nonPinchFrame f" by simp_all
  show ?case
    unfolding frames_fst_Cons
    by (simp add: Cons.IH [OF fs] nonPinch_step [OF f] field_simps)
qed

lemma fist_frame: "nonPinchFrame (True, seen fistHand)"
  by (simp add: nonPinchFrame_def seen_def fistHand_facts)

lemma palm_frame: "nonPinchFrame (True, seen palmHand)"
  by (simp add: nonPinchFrame_def seen_def palmHand_facts)

text \<open>
  What holds of the mode on one frame: a classification that carries no mode reports the
  \<^verbatim>\<open>gestureMode\<close> of the callback's closure and leaves the React state alone; one that
  carries a mode reports it, and writes it to the React state when it differs from the
  closure's \<^verbatim>\<open>gestureMode\<close>.
\<close>

lemma frame_mode:
  assumes "multiHandLandmarks r = Some (l # others)" and "21 \<le> length l"
  shows "map_option mode (snd (onResults True g True st r)) =
           Some (case classMode (classOf l) of None \<Rightarrow> g | Some m \<Rightarrow> m)"
    and "gestureModeState (fst (onResults True g True st r)) =
           (case classMode (classOf l) of
              None \<Rightarrow> gestureModeState st
            | Some m \<Rightarrow> if m \<noteq> g then m else gestureModeState st)"
  by (simp_all add: onResults_hand [OF assms] classify_def split: option.split)

section \<open>The claims\<close>

subsection \<open>C1: the priority chain\<close>

text \<open>
  C1. For every input of 21 landmarks and every sticky mode, \<^verbatim>\<open>detectGesture\<close> returns the
  first matching rule of the fixed priority chain \<open>priority_chain\<close> (Pinch, Dissection,
  Normal, Pathology, Rotate-palm, Rotate-point, otherwise Unrecognized), with the mode
  the rule carries or else the sticky mode; a finger is extended iff its wrist-to-tip
  distance exceeds its wrist-to-knuckle distance by 0.05, and the count is over the four
  fingers other than the thumb.
\<close>

theorem C1_first_match:
  "length landmarks = 21 \<Longrightarrow>
   detectGesture stickyMode landmarks =
     Some \<lparr>name = className (fst (classify landmarks stickyMode)),
           gmode = snd (classify landmarks stickyMode)\<rparr>"
  by (simp add: detectGesture_classify classify_def)

text \<open>C1 at the pinching hand and at the open hand, sticky mode pathology.\<close>

theorem C1_first_match_witness:
  "length pinchHand = 21 \<and>
   detectGesture Pathology pinchHand = Some \<lparr>name = name_pinch, gmode = Pathology\<rparr> \<and>
   length openHand = 21 \<and>
   detectGesture Pathology openHand = Some \<lparr>name = name_open_hand, gmode = Dissection\<rparr>"
  using C1_first_match [of pinchHand Pathology] C1_first_match [of openHand Pathology]
  by (simp add: classify_def pinchHand_facts openHand_facts)

subsection \<open>C2: the fist\<close>

text \<open>
  C2 as stated fails: a fist whose thumb tip rests 0.04 from the index tip has no finger
  and no thumb extended, and the Pinch rule, which is tried first, takes it; the mode
  stays the sticky one (here dissection).
\<close>

theorem C2_fist_counterexample:
  "length thumbOnFistHand = 21 \<and> extendedCount thumbOnFistHand = 0 \<and>
   \<not> thumbExtended thumbOnFistHand \<and>
   detectGesture Dissection thumbOnFistHand = Some \<lparr>name = name_pinch, gmode = Dissection\<rparr> \<and>
   name_pinch \<noteq> name_fist"
  using className_inj [of Pinch FistNormal]
  by (simp add: detectGesture_classify classify_def thumbOnFistHand_facts)

text \<open>
  C2, amended. For every input of 21 landmarks with no finger extended, the thumb not
  extended and a pinch distance of at least 0.06, the classification is the fist and the
  mode reported to the consumer is normal, whatever the sticky mode.
\<close>

theorem C2_fist_normal:
  assumes "length landmarks = 21" and "extendedCount landmarks = 0"
    and "\<not> thumbExtended landmarks" and "\<not> pinchDistance landmarks < 0.06"
  shows "detectGesture stickyMode landmarks = Some \<lparr>name = name_fist, gmode = Normal\<rparr> \<and>
         map_option mode (snd (onResults True stickyMode True st (seen landmarks))) = Some Normal"
proof -
  have c: "classOf landmarks = FistNormal"
    using assms by (simp add: classOf_eq)
  have "multiHandLandmarks (seen landmarks) = Some (landmarks # [])"
    by (simp add: seen_def)
  from onResults_hand [OF this, of stickyMode st] assms(1) c show ?thesis
    by (simp add: detectGesture_classify classify_def)
qed

text \<open>C2, amended, at a fist whose thumb tip is 0.1 from the index tip, sticky mode pathology.\<close>

theorem C2_fist_normal_witness:
  "length fistHand = 21 \<and> extendedCount fistHand = 0 \<and> \<not> thumbExtended fistHand \<and>
   \<not> pinchDistance fistHand < 0.06 \<and>
   detectGesture Pathology fistHand = Some \<lparr>name = name_fist, gmode = Normal\<rparr> \<and>
   map_option mode (snd (onResults True Pathology True initialController (seen fistHand))) =
     Some Normal"
  using C2_fist_normal [of fistHand Pathology initialController]
  by (simp add: fistHand_facts)

subsection \<open>C3: what is sent to the consumer\<close>

text \<open>
  C3 as stated fails: on a frame without a hand \<^verbatim>\<open>onResults\<close> does not call
  \<^verbatim>\<open>onGestureChange\<close>.
\<close>

theorem C3_no_hand_counterexample:
  "snd (onResults True Normal True initialController noHand) = None"
  by (simp add: onResults_no_hand noHand_def)

text \<open>
  C3, amended. On every invocation in which a hand of 21 landmarks is detected (gesture
  control enabled, canvas available) the signal sent is the accumulated rotation, the
  smoothed zoom and the mode of the frame's classification (the sticky mode when the
  classification carries none); on an invocation without a hand nothing is sent.
\<close>

theorem C3_emit_on_hand:
  assumes "multiHandLandmarks r = Some (l # others)" and "length l = 21"
    and "multiHandLandmarks r0 = None \<or> multiHandLandmarks r0 = Some []"
  shows "snd (onResults True g True st r) =
           Some \<lparr>rotationX = px (rotationRef (fst (onResults True g True st r))),
                 rotationY = py (rotationRef (fst (onResults True g True st r))),
                 zoom = zoomRef (fst (onResults True g True st r)),
                 mode = snd (classify l g)\<rparr> \<and>
         snd (onResults True g True st r0) = None"
  using assms(2) by (simp add: onResults_hand [OF assms(1)] onResults_no_hand [OF assms(3)])

text \<open>C3, amended, at the open hand and at a frame without a hand.\<close>

theorem C3_emit_on_hand_witness:
  "multiHandLandmarks (seen openHand) = Some [openHand] \<and> length openHand = 21 \<and>
   multiHandLandmarks noHand = None \<and>
   snd (onResults True Pathology True initialController (seen openHand)) =
     Some \<lparr>rotationX = 0, rotationY = 0, zoom = 1, mode = Dissection\<rparr> \<and>
   snd (onResults True Pathology True initialController noHand) = None"
  using C3_emit_on_hand [of "seen openHand" openHand "[]" noHand Pathology initialController]
  by (simp add: seen_def noHand_def openHand_facts classify_def onResults_hand
      initialController_def)

subsection \<open>C4: the zoom of a pinch\<close>

text \<open>
  C4. On a frame classified Pinch the smoothed zoom becomes the clamp of
  \<open>1 / (distance * 15)\<close> to the range from 0.3 to 2.5, the distance being that of the
  thumb tip and the index tip; for every distance \<open>d \<ge> 0\<close> the value lies in that range
  (at distance 0 it is 2.5), and distance 0.02 gives exactly 2.5.
\<close>

theorem C4_pinch_zoom:
  assumes "multiHandLandmarks r = Some (l # others)" and "length l = 21"
    and "classOf l = Pinch" and "0 \<le> d"
  shows "zoomRef (fst (onResults True g True st r)) = pinchZoom (distance (l ! 4) (l ! 8)) \<and>
         pinchZoom d = (if d = 0 then 2.5 else max 0.3 (min 2.5 (1 / (d * 15)))) \<and>
         0.3 \<le> pinchZoom d \<and> pinchZoom d \<le> 2.5 \<and> pinchZoom 0.02 = 2.5"
  using assms(2,3) pinchZoom_range [of d]
  by (simp add: onResults_hand [OF assms(1)] pinch_distance_eq) (simp add: pinchZoom_def)

text \<open>C4 at the hand with thumb tip (0.50, 0.50) and index tip (0.52, 0.50), and at \<open>d = 0\<close>.\<close>

theorem C4_pinch_zoom_witness:
  "length pinchHand = 21 \<and> classOf pinchHand = Pinch \<and>
   distance (pinchHand ! 4) (pinchHand ! 8) = 0.02 \<and>
   zoomRef (fst (onResults True Normal True initialController (seen pinchHand))) = 2.5 \<and>
   pinchZoom 0 = 2.5"
  using C4_pinch_zoom [of "seen pinchHand" pinchHand "[]" 0 Normal initialController]
  by (simp add: seen_def pinchHand_facts pinch_distance_eq)

subsection \<open>C5: rotation from the movement of the palm\<close>

text \<open>
  C5. On a frame with a hand of 21 landmarks, the movement of landmark 9 since the last
  stored palm position is added to the rotation (ten times the horizontal movement to
  \<open>y\<close>, ten times the vertical movement subtracted from \<open>x\<close>) exactly when the
  classification is Rotate-palm or Rotate-point; otherwise, and when no palm position is
  stored, the rotation is unchanged; and the position of landmark 9 is stored in every
  case.
\<close>

theorem C5_rotation:
  assumes "multiHandLandmarks r = Some (l # others)" and "length l = 21"
  shows "rotationRef (fst (onResults True g True st r)) =
           (case lastHandPosRef st of
              None \<Rightarrow> rotationRef st
            | Some prev \<Rightarrow>
                if classOf l = OpenPalmRotate \<or> classOf l = PointingRotate
                then \<lparr>px = px (rotationRef st) - (py (l ! 9) - py prev) * 10,
                      py = py (rotationRef st) + (px (l ! 9) - px prev) * 10\<rparr>
                else rotationRef st) \<and>
         lastHandPosRef (fst (onResults True g True st r)) =
           Some \<lparr>px = px (l ! 9), py = py (l ! 9)\<rparr>"
  using assms(2) by (simp add: onResults_hand [OF assms(1)])

text \<open>
  C5 at the open palm with the palm last seen at (0.4, 0.7) and now at (0.5, 0.6), at the
  open palm with no stored position, and at the fist.
\<close>

theorem C5_rotation_witness:
  "length palmHand = 21 \<and> classOf palmHand = OpenPalmRotate \<and>
   rotationRef (fst (onResults True Normal True
       (initialController\<lparr>lastHandPosRef := Some (pt 0.4 0.7)\<rparr>) (seen palmHand))) = pt 1 1 \<and>
   lastHandPosRef (fst (onResults True Normal True
       (initialController\<lparr>lastHandPosRef := Some (pt 0.4 0.7)\<rparr>) (seen palmHand))) =
     Some (pt 0.5 0.6) \<and>
   rotationRef (fst (onResults True Normal True initialController (seen palmHand))) = pt 0 0 \<and>
   rotationRef (fst (onResults True Normal True
       (initialController\<lparr>lastHandPosRef := Some (pt 0.4 0.7)\<rparr>) (seen fistHand))) = pt 0 0"
  using C5_rotation [of "seen palmHand" palmHand "[]" Normal
      "initialController\<lparr>lastHandPosRef := Some (pt 0.4 0.7)\<rparr>"]
    C5_rotation [of "seen palmHand" palmHand "[]" Normal initialController]
    C5_rotation [of "seen fistHand" fistHand "[]" Normal
      "initialController\<lparr>lastHandPosRef := Some (pt 0.4 0.7)\<rparr>"]
  by (simp add: seen_def palmHand_facts fistHand_facts initialController_def)

subsection \<open>C6: a frame without a hand\<close>

text \<open>
  C6 as stated fails: after a pinch has set the zoom to 2.5, a frame without a hand leaves
  it at 2.5; a step of decay would give 2.425.
\<close>

theorem C6_no_decay_counterexample:
  "zoomRef (fst (frames True Normal initialController [(True, seen pinchHand)])) = 2.5 \<and>
   zoomRef (fst (frames True Normal initialController [(True, seen pinchHand), (True, noHand)])) =
     2.5 \<and>
   (2.5 :: real) \<noteq> 2.5 * 0.95 + 1.0 * 0.05"
  by (simp add: frames_fst_Cons onResults_hand onResults_no_hand seen_def noHand_def
      pinchHand_facts pinchZoom_def)

text \<open>
  C6, amended. On a frame in which no hand is detected the stored palm position is
  cleared, and the accumulated rotation, the mode and the smoothed zoom are all left as
  they were.
\<close>

theorem C6_no_hand:
  assumes "multiHandLandmarks r = None \<or> multiHandLandmarks r = Some []"
  shows "lastHandPosRef (fst (onResults True g True st r)) = None \<and>
         rotationRef (fst (onResults True g True st r)) = rotationRef st \<and>
         gestureModeState (fst (onResults True g True st r)) = gestureModeState st \<and>
         zoomRef (fst (onResults True g True st r)) = zoomRef st"
  by (simp add: onResults_no_hand [OF assms])

text \<open>C6, amended, at a state with a stored palm position and zoom 2.5.\<close>

theorem C6_no_hand_witness:
  "multiHandLandmarks noHand = None \<and>
   lastHandPosRef (fst (onResults True Normal True
       (initialController\<lparr>lastHandPosRef := Some (pt 0.4 0.7), zoomRef := 2.5\<rparr>) noHand)) = None \<and>
   zoomRef (fst (onResults True Normal True
       (initialController\<lparr>lastHandPosRef := Some (pt 0.4 0.7), zoomRef := 2.5\<rparr>) noHand)) = 2.5"
  using C6_no_hand [of noHand Normal
      "initialController\<lparr>lastHandPosRef := Some (pt 0.4 0.7), zoomRef := 2.5\<rparr>"]
  by (simp add: noHand_def)

subsection \<open>C7: the decay of the zoom\<close>

text \<open>
  C7 as stated fails in its bound: from zoom 2.5, ninety frames of a fist leave the zoom
  more than 0.01 away from 1.
\<close>

theorem C7_decay_counterexample:
  "\<not> \<bar>zoomRef (fst (frames True Normal (initialController\<lparr>zoomRef := 2.5\<rparr>)
          (replicate 90 (True, seen fistHand)))) - 1\<bar> \<le> 0.01"
  by (simp add: frames_decay fist_frame power_divide)

text \<open>
  C7, amended. Along frames with a hand whose classification is not Pinch, each frame
  replaces the zoom by \<open>zoom * 0.95 + 1.0 * 0.05\<close>; the new value lies between the old
  one and 1 and is strictly nearer to 1 unless the old one was 1; and from any zoom
  between 0.3 and 2.5, after 98 such frames or more the zoom is within 0.01 of 1.
\<close>

theorem C7_decay:
  assumes "0.3 \<le> zoomRef st" and "zoomRef st \<le> 2.5"
    and "\<forall>f \<in> set fs. nonPinchFrame f" and "nonPinchFrame f"
    and "\<forall>f \<in> set gs. nonPinchFrame f" and "98 \<le> length gs"
  shows "zoomRef (fst (frames True g st (fs @ [f]))) =
           zoomRef (fst (frames True g st fs)) * 0.95 + 1.0 * 0.05 \<and>
         min (zoomRef (fst (frames True g st fs))) 1 \<le> zoomRef (fst (frames True g st (fs @ [f]))) \<and>
         zoomRef (fst (frames True g st (fs @ [f]))) \<le> max (zoomRef (fst (frames True g st fs))) 1 \<and>
         (zoomRef (fst (frames True g st fs)) = 1 \<or>
          \<bar>zoomRef (fst (frames True g st (fs @ [f]))) - 1\<bar> <
          \<bar>zoomRef (fst (frames True g st fs)) - 1\<bar>) \<and>
         \<bar>zoomRef (fst (frames True g st gs)) - 1\<bar> \<le> 0.01"
proof -
  define z where "z = zoomRef (fst (frames True g st fs))"
  have step: "zoomRef (fst (frames True g st (fs @ [f]))) = z * 0.95 + 0.05"
    using nonPinch_step [OF assms(4)] by (simp add: frames_fst_snoc z_def)
  have start: "\<bar>zoomRef st - 1\<bar> \<le> 3 / 2" using assms(1,2) by (simp add: abs_if)
  have "(19 / 20 :: real) ^ length gs \<le> (19 / 20) ^ 98"
    using assms(6) by (intro power_decreasing) simp_all
  then have "(19 / 20) ^ length gs * \<bar>zoomRef st - 1\<bar> \<le> (19 / 20) ^ 98 * (3 / 2)"
    using start by (intro mult_mono) simp_all
  also have "(19 / 20 :: real) ^ 98 * (3 / 2) \<le> 1 / 100"
    by (simp add: power_divide)
  finally have "(19 / 20) ^ length gs * \<bar>zoomRef st - 1\<bar> \<le> 1 / 100" .
  then have far: "\<bar>zoomRef (fst (frames True g st gs)) - 1\<bar> \<le> 0.01"
    by (simp add: frames_decay [OF assms(5)] abs_mult)
  show ?thesis
    unfolding step z_def [symmetric] using far by (auto simp: min_def max_def abs_if)
qed

text \<open>C7, amended, from zoom 2.5: one frame of an open palm, then a fist; and 98 frames of
  a fist.\<close>

theorem C7_decay_witness:
  "zoomRef (fst (frames True Normal (initialController\<lparr>zoomRef := 2.5\<rparr>)
       [(True, seen palmHand)])) = 2.425 \<and>
   zoomRef (fst (frames True Normal (initialController\<lparr>zoomRef := 2.5\<rparr>)
       ([(True, seen palmHand)] @ [(True, seen fistHand)]))) = 2.425 * 0.95 + 1.0 * 0.05 \<and>
   \<bar>zoomRef (fst (frames True Normal (initialController\<lparr>zoomRef := 2.5\<rparr>)
       (replicate 98 (True, seen fistHand)))) - 1\<bar> \<le> 0.01"
proof -
  have one: "zoomRef (fst (frames True Normal (initialController\<lparr>zoomRef := 2.5\<rparr>)
       [(True, seen palmHand)])) = 2.425"
    using frames_decay [of "[(True, seen palmHand)]" Normal "initialController\<lparr>zoomRef := 2.5\<rparr>"]
      palm_frame
    by simp
  show ?thesis
    using C7_decay [of "initialController\<lparr>zoomRef := 2.5\<rparr>" "[(True, seen palmHand)]"
        "(True, seen fistHand)" "replicate 98 (True, seen fistHand)" Normal]
      palm_frame fist_frame one
    by simp
qed

subsection \<open>C8: the sticky mode\<close>

text \<open>
  C8 asks that a Pinch frame report the sticky mode of the frame before it. The callback
  reads the \<^verbatim>\<open>gestureMode\<close> of the render that registered it. Enabled in mode normal, an
  open hand reports dissection and writes dissection to the React state; the pinch that
  follows reports normal, while the React state still says dissection.
\<close>

theorem C8_stale_sticky_mode:
  "map (map_option mode)
     (snd (frames True Normal initialController [(True, seen openHand), (True, seen pinchHand)])) =
     [Some Dissection, Some Normal] \<and>
   gestureModeState (fst (frames True Normal initialController [(True, seen openHand)])) =
     Dissection \<and>
   gestureModeState
     (fst (frames True Normal initialController [(True, seen openHand), (True, seen pinchHand)])) =
     Dissection"
  by (simp add: frames_fst_Cons frames_snd_Cons onResults_hand seen_def classify_def
      openHand_facts pinchHand_facts)

subsection \<open>C9: the render tick in gesture mode\<close>

text \<open>
  C9. While gesture mode is enabled, a render tick with a signal present and a loaded
  model sets the model's rotation about \<open>x\<close> and \<open>y\<close> to the signal's values and its scale
  to the base scale of the asset (1000 for the heart, 0.1 for the brain) times the
  signal's zoom, uniformly, whatever the rotation was; nothing else changes, so the idle
  increment is not applied, and the mouse handlers change nothing.
\<close>

theorem C9_gesture_tick:
  assumes "gestureEnabledRef v" and "gestureControlsRef v = Some c" and "meshRef v = Some m"
  shows "animate selectedOrgan v =
           v\<lparr>meshRef := Some
               \<lparr>rotation = \<lparr>vx = rotationX c, vy = rotationY c, vz = vz (rotation m)\<rparr>,
                scale = \<lparr>vx = vx (modelScale selectedOrgan) * zoom c,
                         vy = vy (modelScale selectedOrgan) * zoom c,
                         vz = vz (modelScale selectedOrgan) * zoom c\<rparr>\<rparr>\<rparr> \<and>
         onMouseDown e v = v \<and> onMouseMove e v = v \<and>
         modelScale (Some ''heart'') = \<lparr>vx = 1000, vy = 1000, vz = 1000\<rparr> \<and>
         modelScale (Some ''brain'') = \<lparr>vx = 0.1, vy = 0.1, vz = 0.1\<rparr>"
  using assms
  by (simp add: animate_def onMouseDown_def onMouseMove_def modelScale_def Let_def)

text \<open>C9 at a viewer in the middle of a drag, for the brain and for the heart.\<close>

theorem C9_gesture_tick_witness:
  "gestureEnabledRef gestureViewer \<and>
   meshRef (animate (Some ''brain'') gestureViewer) =
     Some \<lparr>rotation = \<lparr>vx = 1, vy = 2, vz = 0\<rparr>, scale = \<lparr>vx = 0.25, vy = 0.25, vz = 0.25\<rparr>\<rparr> \<and>
   meshRef (animate (Some ''heart'') gestureViewer) =
     Some \<lparr>rotation = \<lparr>vx = 1, vy = 2, vz = 0\<rparr>, scale = \<lparr>vx = 2500, vy = 2500, vz = 2500\<rparr>\<rparr> \<and>
   onMouseMove \<lparr>clientX = 50, clientY = 60\<rparr> gestureViewer = gestureViewer"
  using C9_gesture_tick [of gestureViewer
      "\<lparr>rotationX = 1, rotationY = 2, zoom = 2.5, mode = Normal\<rparr>"
      "\<lparr>rotation = \<lparr>vx = 0.3, vy = 0.4, vz = 0\<rparr>, scale = \<lparr>vx = 0.1, vy = 0.1, vz = 0.1\<rparr>\<rparr>"
      "Some ''brain''" "\<lparr>clientX = 50, clientY = 60\<rparr>"]
    C9_gesture_tick [of gestureViewer
      "\<lparr>rotationX = 1, rotationY = 2, zoom = 2.5, mode = Normal\<rparr>"
      "\<lparr>rotation = \<lparr>vx = 0.3, vy = 0.4, vz = 0\<rparr>, scale = \<lparr>vx = 0.1, vy = 0.1, vz = 0.1\<rparr>\<rparr>"
      "Some ''heart''" "\<lparr>clientX = 50, clientY = 60\<rparr>"]
  by (simp add: gestureViewer_def modelScale_def)

subsection \<open>C10: the range of the zoom\<close>

text \<open>
  C10. From the initial state, whose zoom is 1, the smoothed zoom lies between 0.3 and 2.5
  after any sequence of frames, whatever each frame shows and whether or not the canvas
  is available: a pinch sets a clamped value, a decay step maps the range into itself,
  and every other frame leaves the zoom as it was.
\<close>

theorem C10_zoom_invariant:
  "0.3 \<le> zoomRef (fst (frames enabled gestureMode initialController fs)) \<and>
   zoomRef (fst (frames enabled gestureMode initialController fs)) \<le> 2.5"
  by (rule frames_zoom_range) (simp add: initialController_def)

end
